theory Spec2Isabelle
  imports Main "HOL-Library.Sublist"
begin

section \<open>JavaScript strings\<close>

text \<open>
  A JavaScript string is a sequence of UTF-16 code units. The model covers the texts
  whose code units lie in U+0000..U+00FF and writes them as \<^typ>\<open>string\<close>, one
  \<^typ>\<open>char\<close> per code unit, so that \<^const>\<open>length\<close>, indexing and
  \<^const>\<open>take\<close> count what \<open>.length\<close>, \<open>s[i]\<close> and \<open>substring\<close> count. The
  number of a code unit is read with \<^const>\<open>of_char\<close>, as an \<^typ>\<open>int\<close>.
\<close>

text \<open>
  \<open>indexOf s p\<close> is the position of the first occurrence of \<open>p\<close> in \<open>s\<close>
  (\<open>String.prototype.indexOf\<close>, with \<open>None\<close> for \<open>-1\<close>); \<open>includes\<close>,
  \<open>replace\<close> with a string pattern and \<open>split\<close> with a string separator all search
  with it.
\<close>

fun indexOf :: "string \<Rightarrow> string \<Rightarrow> nat option" where
  "indexOf [] p = (if p = [] then Some 0 else None)"
| "indexOf (c # cs) p =
     (if prefix p (c # cs) then Some 0 else map_option Suc (indexOf cs p))"

definition includes_js :: "string \<Rightarrow> string \<Rightarrow> bool" where
  "includes_js s p = (indexOf s p \<noteq> None)"

text \<open>
  The text that \<open>replace\<close> puts in the place of a match, for a pattern without
  capture groups: in the replacement, \<open>$$\<close> stands for \<open>$\<close>, \<open>$&\<close> for the matched
  text, \<open>$\<close> with a backquote for the text before the match and \<open>$\<close> with a quote for
  the text after it; every other character stands for itself.
\<close>

fun getSubstitution :: "string \<Rightarrow> string \<Rightarrow> string \<Rightarrow> string \<Rightarrow> string" where
  "getSubstitution matched before after [] = []"
| "getSubstitution matched before after [c] = [c]"
| "getSubstitution matched before after (c # d # r) =
     (if c = CHR ''$'' \<and> d = CHR ''$'' then CHR ''$'' # getSubstitution matched before after r
      else if c = CHR ''$'' \<and> d = CHR ''&'' then matched @ getSubstitution matched before after r
      else if c = CHR ''$'' \<and> d = CHR 0x60 then before @ getSubstitution matched before after r
      else if c = CHR ''$'' \<and> d = CHR 0x27 then after @ getSubstitution matched before after r
      else c # getSubstitution matched before after (d # r))"

text \<open>\<open>s.replace(p, r)\<close> with a string pattern replaces the first occurrence only.\<close>

definition replace_js :: "string \<Rightarrow> string \<Rightarrow> string \<Rightarrow> string" where
  "replace_js s p r =
     (case indexOf s p of
        None \<Rightarrow> s
      | Some i \<Rightarrow>
          take i s @ getSubstitution p (take i s) (drop (i + length p) s) r @
          drop (i + length p) s)"

lemma indexOf_bound: "indexOf s p = Some i \<Longrightarrow> i + length p \<le> length s"
proof (induction s arbitrary: i)
  case Nil
  then show ?case by (simp split: if_splits)
next
  case (Cons c cs)
  then show ?case by (auto split: if_splits dest: prefix_length_le)
qed

text \<open>
  \<open>s.replace(/p/g, r)\<close> for a regular expression that is a literal, non-empty text
  \<open>p\<close> (\<open>/\<newline>/g\<close> and \<open>/<br \/>/g\<close>): every occurrence, left to right, without
  overlap. \<open>before\<close> is the part of the whole text that lies before \<open>s\<close>.
\<close>

function replaceAllFrom :: "string \<Rightarrow> string \<Rightarrow> string \<Rightarrow> string \<Rightarrow> string" where
  "replaceAllFrom before s p r =
     (if p = [] then s
      else case indexOf s p of
             None \<Rightarrow> s
           | Some i \<Rightarrow>
               take i s @ getSubstitution p (before @ take i s) (drop (i + length p) s) r @
               replaceAllFrom (before @ take i s @ p) (drop (i + length p) s) p r)"
  by pat_completeness auto
termination
proof (relation "measure (\<lambda>(before, s, p, r). length s)")
  show "wf (measure (\<lambda>(before, s, p, r). length s))" by simp
next
  fix before s p r :: string and i
  assume "p \<noteq> []" and "indexOf s p = Some i"
  then have "i + length p \<le> length s" and "0 < length p"
    by (auto dest: indexOf_bound)
  then have "length s - (i + length p) < length s" by arith
  then have "length (drop (i + length p) s) < length s" by simp
  then show "((before @ take i s @ p, drop (i + length p) s, p, r), before, s, p, r)
      \<in> measure (\<lambda>(before, s, p, r). length s)"
    by simp
qed

declare replaceAllFrom.simps [simp del]

definition replaceAll :: "string \<Rightarrow> string \<Rightarrow> string \<Rightarrow> string" where
  "replaceAll s p r = replaceAllFrom [] s p r"

text \<open>
  \<open>s.split(sep)\<close> with a string separator. An empty separator cuts the text into its
  code units.
\<close>

function split_js :: "string \<Rightarrow> string \<Rightarrow> string list" where
  "split_js s sep =
     (if sep = [] then map (\<lambda>c. [c]) s
      else case indexOf s sep of
             None \<Rightarrow> [s]
           | Some i \<Rightarrow> take i s # split_js (drop (i + length sep) s) sep)"
  by pat_completeness auto
termination
proof (relation "measure (\<lambda>(s, sep). length s)")
  show "wf (measure (\<lambda>(s, sep). length s))" by simp
next
  fix s sep :: string and i
  assume "sep \<noteq> []" and "indexOf s sep = Some i"
  then have "i + length sep \<le> length s" and "0 < length sep"
    by (auto dest: indexOf_bound)
  then have "length s - (i + length sep) < length s" by arith
  then have "length (drop (i + length sep) s) < length s" by simp
  then show "((drop (i + length sep) s, sep), s, sep) \<in> measure (\<lambda>(s, sep). length s)"
    by simp
qed

declare split_js.simps [simp del]

text \<open>
  \<open>trim\<close> removes white space and line terminators at both ends; below U+0100 these
  are TAB, LF, VT, FF, CR, SPACE and NO-BREAK SPACE.
\<close>

definition isWhiteSpace :: "char \<Rightarrow> bool" where
  "isWhiteSpace c =
     (c = CHR 0x09 \<or> c = CHR 0x0A \<or> c = CHR 0x0B \<or> c = CHR 0x0C \<or> c = CHR 0x0D \<or>
      c = CHR 0x20 \<or> c = CHR 0xA0)"

definition trim :: "string \<Rightarrow> string" where
  "trim s = rev (dropWhile isWhiteSpace (rev (dropWhile isWhiteSpace s)))"

section \<open>URI encoding and decoding\<close>

text \<open>The character class \<open>[a-z0-9]\<close> under the flag \<open>i\<close>: digits and ASCII letters.\<close>

definition isAlnum :: "char \<Rightarrow> bool" where
  "isAlnum c =
     (let n = (of_char c :: int)
      in (48 \<le> n \<and> n \<le> 57) \<or> (65 \<le> n \<and> n \<le> 90) \<or> (97 \<le> n \<and> n \<le> 122))"

text \<open>
  \<open>toLowerCase\<close> below U+0100: the letters A-Z and the capital letters U+00C0..U+00DE
  (without the multiplication sign U+00D7) move up by 32.
\<close>

definition lowerChar :: "char \<Rightarrow> char" where
  "lowerChar c =
     (let n = (of_char c :: int)
      in if (65 \<le> n \<and> n \<le> 90) \<or> (192 \<le> n \<and> n \<le> 222 \<and> n \<noteq> 215)
         then char_of (n + 32) else c)"

definition toLowerCase :: "string \<Rightarrow> string" where
  "toLowerCase s = map lowerChar s"

text \<open>
  \<open>encodeURI\<close> keeps letters, digits and the marks and reserved characters
  \<open>; / ? : @ & = + $ , - _ . ! ~ * ' ( ) #\<close>, and writes every other code unit as the
  percent-escaped octets of its UTF-8 encoding: one octet below U+0080, two from there
  to U+00FF.
\<close>

definition uriUnescaped :: "char \<Rightarrow> bool" where
  "uriUnescaped c = (isAlnum c \<or> c \<in> set (CHR 0x27 # '';/?:@&=+$,-_.!~*()#''))"

definition hexDigit :: "int \<Rightarrow> char" where
  "hexDigit n = ''0123456789ABCDEF'' ! nat (n mod 16)"

definition percent :: "int \<Rightarrow> string" where
  "percent octet = [CHR ''%'', hexDigit (octet div 16), hexDigit (octet mod 16)]"

definition encodeChar :: "char \<Rightarrow> string" where
  "encodeChar c =
     (let n = (of_char c :: int)
      in if uriUnescaped c then [c]
         else if n < 128 then percent n
         else percent (192 + n div 64) @ percent (128 + n mod 64))"

definition encodeURI :: "string \<Rightarrow> string" where
  "encodeURI s = concat (map encodeChar s)"

text \<open>
  \<open>decodeURI\<close> reads each \<open>%XX\<close> as an octet. An octet below 0x80 is its character,
  unless that is one of \<open>; / ? : @ & = + $ , #\<close>, whose escape stays as written. A
  larger octet starts a UTF-8 sequence of two to four escaped octets, which is decoded
  to its code point; a malformed escape or sequence raises \<open>URIError\<close> (the result
  \<open>Malformed\<close>). A code point above U+00FF has no text in this model: the result is
  then \<open>Wide\<close> (when the rest of the text is not malformed).
\<close>

datatype decoded = Decoded string | Malformed | Wide

definition hexValue :: "char \<Rightarrow> int option" where
  "hexValue c =
     (let n = (of_char c :: int)
      in if 48 \<le> n \<and> n \<le> 57 then Some (n - 48)
         else if 65 \<le> n \<and> n \<le> 70 then Some (n - 55)
         else if 97 \<le> n \<and> n \<le> 102 then Some (n - 87)
         else None)"

text \<open>The octet of an escape \<open>%XX\<close> at the head of a text, with the rest of the text.\<close>

fun escapedOctet :: "string \<Rightarrow> (int \<times> string) option" where
  "escapedOctet (p # h # l # rest) =
     (if p = CHR ''%'' then
        (case (hexValue h, hexValue l) of
           (Some a, Some b) \<Rightarrow> Some (16 * a + b, rest)
         | _ \<Rightarrow> None)
      else None)"
| "escapedOctet _ = None"

text \<open>\<open>k\<close> escaped continuation octets (\<open>10xxxxxx\<close>), with the rest of the text.\<close>

fun continuation :: "nat \<Rightarrow> string \<Rightarrow> (int list \<times> string) option" where
  "continuation 0 s = Some ([], s)"
| "continuation (Suc k) s =
     (case escapedOctet s of
        None \<Rightarrow> None
      | Some (b, rest) \<Rightarrow>
          if 128 \<le> b \<and> b < 192 then
            (case continuation k rest of
               None \<Rightarrow> None
             | Some (bs, rest') \<Rightarrow> Some (b # bs, rest'))
          else None)"

text \<open>
  The code point of a UTF-8 sequence, when the sequence is well formed: not overlong,
  not a surrogate, at most U+10FFFF.
\<close>

fun codePoint :: "int list \<Rightarrow> int option" where
  "codePoint [b0, b1] =
     (let v = (b0 - 192) * 64 + (b1 - 128) in if 128 \<le> v then Some v else None)"
| "codePoint [b0, b1, b2] =
     (let v = (b0 - 224) * 4096 + (b1 - 128) * 64 + (b2 - 128)
      in if 2048 \<le> v \<and> \<not> (55296 \<le> v \<and> v \<le> 57343) then Some v else None)"
| "codePoint [b0, b1, b2, b3] =
     (let v = (b0 - 240) * 262144 + (b1 - 128) * 4096 + (b2 - 128) * 64 + (b3 - 128)
      in if 65536 \<le> v \<and> v \<le> 1114111 then Some v else None)"
| "codePoint _ = None"

definition prepend :: "string \<Rightarrow> decoded \<Rightarrow> decoded" where
  "prepend s d = (case d of Decoded t \<Rightarrow> Decoded (s @ t) | Malformed \<Rightarrow> Malformed | Wide \<Rightarrow> Wide)"

definition widen :: "decoded \<Rightarrow> decoded" where
  "widen d = (case d of Malformed \<Rightarrow> Malformed | _ \<Rightarrow> Wide)"

lemma escapedOctet_shorter: "escapedOctet s = Some (b, rest) \<Longrightarrow> length rest < length s"
  by (induction s rule: escapedOctet.induct) (auto split: if_splits option.splits)

lemma continuation_shorter: "continuation k s = Some (bs, rest) \<Longrightarrow> length rest \<le> length s"
proof (induction k arbitrary: s bs rest)
  case 0
  then show ?case by simp
next
  case (Suc k)
  then show ?case
    by (fastforce split: option.splits if_splits dest: escapedOctet_shorter)
qed

function decodeURI :: "string \<Rightarrow> decoded" where
  "decodeURI [] = Decoded []"
| "decodeURI (c # cs) =
     (if c \<noteq> CHR ''%'' then prepend [c] (decodeURI cs)
      else case escapedOctet (c # cs) of
        None \<Rightarrow> Malformed
      | Some (b, rest) \<Rightarrow>
          if b < 128 then
            (if char_of b \<in> set '';/?:@&=+$,#''
             then prepend (take 3 (c # cs)) (decodeURI rest)
             else prepend [char_of b] (decodeURI rest))
          else if b < 192 \<or> 248 \<le> b then Malformed
          else
            (case continuation (if b < 224 then 1 else if b < 240 then 2 else 3) rest of
               None \<Rightarrow> Malformed
             | Some (bs, rest') \<Rightarrow>
                 (case codePoint (b # bs) of
                    None \<Rightarrow> Malformed
                  | Some v \<Rightarrow>
                      if v < 256 then prepend [char_of v] (decodeURI rest')
                      else widen (decodeURI rest'))))"
  by pat_completeness auto
termination
proof (relation "measure length")
  show "wf (measure length)" by simp
next
  fix c :: char and cs
  show "(cs, c # cs) \<in> measure length" by simp
next
  fix c :: char and cs x2 b rest
  assume "escapedOctet (c # cs) = Some x2" and "(b, rest) = x2"
  then have "length rest < length (c # cs)" by (auto dest: escapedOctet_shorter)
  then show "(rest, c # cs) \<in> measure length" by simp
next
  fix c :: char and cs x2 b rest
  assume "escapedOctet (c # cs) = Some x2" and "(b, rest) = x2"
  then have "length rest < length (c # cs)" by (auto dest: escapedOctet_shorter)
  then show "(rest, c # cs) \<in> measure length" by simp
next
  fix c :: char and cs x2 b rest x2a bs rest'
  assume "escapedOctet (c # cs) = Some x2" and "(b, rest) = x2"
    and "continuation (if b < 224 then 1 else if b < 240 then 2 else 3) rest = Some x2a"
    and "(bs, rest') = x2a"
  then have "length rest < length (c # cs)" and "length rest' \<le> length rest"
    by (auto dest: escapedOctet_shorter continuation_shorter)
  then show "(rest', c # cs) \<in> measure length" by simp
next
  fix c :: char and cs x2 b rest x2a bs rest'
  assume "escapedOctet (c # cs) = Some x2" and "(b, rest) = x2"
    and "continuation (if b < 224 then 1 else if b < 240 then 2 else 3) rest = Some x2a"
    and "(bs, rest') = x2a"
  then have "length rest < length (c # cs)" and "length rest' \<le> length rest"
    by (auto dest: escapedOctet_shorter continuation_shorter)
  then show "(rest', c # cs) \<in> measure length" by simp
qed

section \<open>DB: the message store client\<close>

text \<open>
  \<open>postMsg\<close> issues one GET request; the model returns its URL. Each argument is made
  URL-safe by \<open>x.replace(/[^a-z0-9]/gi, "_").toLowerCase()\<close> and then passed through
  \<open>encodeURI\<close>.
\<close>

definition urlSafe :: "string \<Rightarrow> string" where
  "urlSafe x = toLowerCase (map (\<lambda>c. if isAlnum c then c else CHR ''_'') x)"

definition postMsg :: "string \<Rightarrow> string \<Rightarrow> string \<Rightarrow> string" where
  "postMsg alias_arg content_arg at_arg =
     ''http://143.198.57.139:80/msg/'' @ encodeURI (urlSafe alias_arg) @ ''/'' @
     encodeURI (urlSafe content_arg) @ ''/'' @ encodeURI (urlSafe at_arg)"

section \<open>Terminal: the session and the argument parser\<close>

text \<open>
  The state of one Terminal that the interpreter reads and writes: the session
  (\<open>user\<close>, \<open>_system\<close>, \<open>_path\<close>, \<open>_ps1\<close>), the flag \<open>cwd\<close>, \<open>_buffer\<close>, the
  text of the textarea \<open>_stdin\<close> (its \<open>value\<close>; \<open>textLength\<close> is its length), the
  \<open>innerHTML\<close> last written to \<open>_stdout\<close>, the inline background and colour of
  \<open>_stdout\<close>, the style attribute of the document element, and the URLs of the
  requests that \<open>DB.postMsg\<close> has sent, oldest first.
\<close>

record session =
  user :: string
  system :: string
  path :: string
  ps1 :: string
  cwd :: bool
  buffer :: nat
  stdin :: string
  stdout :: string
  styleBackground :: string
  styleColor :: string
  documentStyle :: string
  requests :: "string list"

text \<open>The prompt colours, set once by the constructor.\<close>

definition usernameColor :: string where
  "usernameColor = ''var(--secondary-text)''"

definition pathColor :: string where
  "pathColor = ''var(--tertiary-text)''"

definition ps1Color :: string where
  "ps1Color = ''var(--primary-text)''"

definition getPrompt :: "session \<Rightarrow> string" where
  "getPrompt s =
     ''<span style=\"color: '' @ usernameColor @ ''\">'' @ user s @ ''@'' @ system s @ '':'' @
     ''</span><span style=\"color: '' @ pathColor @ ''\">'' @ path s @ ''</span><span'' @
     '' style=\"color: '' @ ps1Color @ ''\">'' @ ps1 s @ ''</span>''"

text \<open>
  What \<open>_parseArg\<close> returns: \<open>undefined\<close> (it returns nothing), \<open>true\<close>, or a text.
  \<open>truthy\<close> is the test of \<open>if (x)\<close> and \<open>&&\<close>; \<open>toText\<close> is what a template
  literal writes for the value.
\<close>

datatype parsed = Undefined | IsTrue | Text string

fun truthy :: "parsed \<Rightarrow> bool" where
  "truthy Undefined = False"
| "truthy IsTrue = True"
| "truthy (Text t) = (t \<noteq> [])"

fun toText :: "parsed \<Rightarrow> string" where
  "toText Undefined = ''undefined''"
| "toText IsTrue = ''true''"
| "toText (Text t) = t"

text \<open>
  \<open>xs[xs.length - 2]\<close>: the element before the last, \<open>undefined\<close> (\<open>None\<close>) when
  there are fewer than two.
\<close>

definition lastButOne :: "'a list \<Rightarrow> 'a option" where
  "lastButOne xs = (if 2 \<le> length xs then Some (xs ! (length xs - 2)) else None)"

text \<open>
  \<open>currText\<close> of \<open>_parseArg\<close>: the input without its \<open><br />\<close> tags, split at the
  prompt, the segment before the last.
\<close>

definition currText :: "session \<Rightarrow> string \<Rightarrow> string option" where
  "currText s input = lastButOne (split_js (replaceAll input ''<br />'' '''') (getPrompt s))"

definition parseArg :: "session \<Rightarrow> string \<Rightarrow> string \<Rightarrow> bool \<Rightarrow> parsed" where
  "parseArg s input command nargs =
     (case currText s input of
        None \<Rightarrow> Undefined
      | Some line \<Rightarrow>
          if line \<noteq> [] \<and> lastButOne input = Some CHR ''>'' then
            if command = ''decoded'' then Text (trim line)
            else if includes_js line command then
              (if \<not> nargs then IsTrue else Text (trim (replace_js line command '''')))
            else Undefined
          else Undefined)"

section \<open>Terminal: the command table\<close>

text \<open>
  A command takes the input text and returns it, possibly rewritten; it may read and
  change the session.
\<close>

type_synonym command = "string \<Rightarrow> session \<Rightarrow> string \<times> session"

text \<open>
  The commands of the constructor, under their names in \<open>_Commands\<close>; \<open>help\<close> and
  \<open>text\<close> are written \<open>help_cmd\<close> and \<open>text_cmd\<close>.
\<close>

definition linebreak :: command where
  "linebreak input s =
     (replaceAll input [CHR 0x0A] (''<br />'' @ getPrompt s @ '' ''), s)"

text \<open>
  \<open>input.substring(0, input.length + 1 - this.getPrompt().length)\<close>: an end below 0
  counts as 0, as the subtraction on \<^typ>\<open>nat\<close> does.
\<close>

definition popPrompt :: "session \<Rightarrow> string \<Rightarrow> string" where
  "popPrompt s input = take (length input + 1 - length (getPrompt s)) input"

definition echo :: command where
  "echo input s =
     (let echoArg = parseArg s input ''echo'' True
      in if truthy echoArg
         then (popPrompt s input @ ''<br />'' @ toText echoArg @ ''<br />    '' @
               getPrompt s @ '' '', s)
         else (input, s))"

definition helpDialog :: string where
  "helpDialog =
     ''Example Commands:<br /><br />cd $LOCATION<br />color $COLOR<br />text $COLOR'' @
     ''<br />darkmode<br />lightmode<br />echo $STRING''"

definition help_cmd :: command where
  "help_cmd input s =
     (if truthy (parseArg s input ''help'' False)
      then (popPrompt s input @ ''<br />'' @ helpDialog @ ''<br />'' @ getPrompt s, s)
      else (input, s))"

text \<open>
  \<open>color\<close> and \<open>text\<close> assign the argument to the inline style of \<open>_stdout\<close>. (The
  model keeps the text as assigned, where a browser keeps the CSS value it reads from
  the text, and the old value when it reads none.)
\<close>

definition color :: command where
  "color input s =
     (let colorArg = parseArg s input ''color'' True
      in if truthy colorArg then (input, s\<lparr>styleBackground := toText colorArg\<rparr>)
         else (input, s))"

definition text_cmd :: command where
  "text_cmd input s =
     (let colorArg = parseArg s input ''text'' True
      in if truthy colorArg then (input, s\<lparr>styleColor := toText colorArg\<rparr>)
         else (input, s))"

definition resetBg :: "session \<Rightarrow> session" where
  "resetBg s =
     s\<lparr>styleBackground := ''var(--secondary-bg)'', styleColor := ''var(--primary-text)'',
       documentStyle := ''filter: none''\<rparr>"

definition whiteMode :: "string \<Rightarrow> session \<Rightarrow> session" where
  "whiteMode documentFilter s =
     (if styleBackground s = ''white'' then resetBg s
      else s\<lparr>styleBackground := ''white'', styleColor := ''#121212'',
             documentStyle := documentFilter\<rparr>)"

definition theme :: command where
  "theme input s =
     (let s1 = (if truthy (parseArg s input ''lightmode'' False)
                then whiteMode ''filter: brightness(1.1) greyscale(.2);'' s else s);
          s2 = (if truthy (parseArg s1 input ''darkmode'' False)
                then whiteMode ''filter: invert(1);'' s1 else s1)
      in (input, s2))"

definition cd :: command where
  "cd input s =
     (let chatArg = parseArg s input ''cd '' True
      in if truthy chatArg
         then (input, s\<lparr>path := path s @ ''/'' @ toText chatArg, cwd := True\<rparr>)
         else (input, s))"

text \<open>
  A value stored in \<open>_Commands\<close>: a function, or a text (which cannot be called). A
  value passed to \<open>addCommand\<close> is a text or a function with its source text, which is
  what the function becomes where a property key is expected.
\<close>

datatype entry = Callable command | NotCallable string

datatype argument = StringArg string | FunctionArg string command

fun stored :: "argument \<Rightarrow> entry" where
  "stored (StringArg t) = NotCallable t"
| "stored (FunctionArg source f) = Callable f"

fun toPropertyKey :: "argument \<Rightarrow> string" where
  "toPropertyKey (StringArg t) = t"
| "toPropertyKey (FunctionArg source f) = source"

text \<open>
  The object \<open>_Commands\<close>: its own properties in the order of their creation.
  Assigning to an existing key keeps its place; assigning to \<open>__proto__\<close> creates no
  property.
\<close>

type_synonym commands = "(string \<times> entry) list"

definition assign :: "commands \<Rightarrow> string \<Rightarrow> entry \<Rightarrow> commands" where
  "assign tbl k v =
     (if k = ''__proto__'' then tbl
      else if k \<in> set (map fst tbl)
        then map (\<lambda>(k', v'). if k' = k then (k', v) else (k', v')) tbl
        else tbl @ [(k, v)])"

definition delete :: "commands \<Rightarrow> string \<Rightarrow> commands" where
  "delete tbl k = filter (\<lambda>(k', v'). k' \<noteq> k) tbl"

text \<open>
  \<open>for ... in\<close> and \<open>Object.keys\<close> list the keys that are array indices (canonical
  decimal numbers below \<open>2^32 - 1\<close>) first, in ascending order, and then the other
  keys in the order of their creation.
\<close>

definition isDigit :: "char \<Rightarrow> bool" where
  "isDigit c = (let n = (of_char c :: int) in 48 \<le> n \<and> n \<le> 57)"

definition indexValue :: "string \<Rightarrow> int" where
  "indexValue k = foldl (\<lambda>a c. 10 * a + (of_char c - 48)) 0 k"

definition isArrayIndex :: "string \<Rightarrow> bool" where
  "isArrayIndex k =
     (k \<noteq> [] \<and> list_all isDigit k \<and> (k = ''0'' \<or> hd k \<noteq> CHR ''0'') \<and>
      indexValue k < 4294967295)"

definition ownProperties :: "commands \<Rightarrow> commands" where
  "ownProperties tbl =
     sort_key (\<lambda>(k, v). indexValue k) (filter (\<lambda>(k, v). isArrayIndex k) tbl) @
     filter (\<lambda>(k, v). \<not> isArrayIndex k) tbl"

definition commandNames :: "commands \<Rightarrow> string list" where
  "commandNames tbl = map fst (ownProperties tbl)"

definition addCommand :: "argument \<Rightarrow> argument \<Rightarrow> commands \<Rightarrow> commands" where
  "addCommand commandExecutor name tbl = assign tbl (toPropertyKey name) (stored commandExecutor)"

definition defaultCommands :: commands where
  "defaultCommands =
     [(''linebreak'', Callable linebreak), (''echo'', Callable echo),
      (''help'', Callable help_cmd), (''color'', Callable color),
      (''text'', Callable text_cmd), (''theme'', Callable theme), (''cd'', Callable cd)]"

text \<open>
  The constructor: the options after \<open>Object.assign(defaults, options)\<close>, and the
  length of the textarea's text when the Terminal is made.
  The inline style of \<open>_stdout\<close> and the style of the document element start
  empty here; what the page and the constructor's style loader put there is not
  modelled, and no command reads it but \<open>theme\<close>, which tests for a white
  background.
\<close>

record options =
  opt_user :: string
  opt_system :: string
  opt_path :: string
  opt_ps1 :: string
  excludedCommands :: "string list"

definition defaults :: options where
  "defaults =
     \<lparr>opt_user = ''alias'', opt_system = ''ubuntu'', opt_path = ''~'', opt_ps1 = ''$'',
      excludedCommands = []\<rparr>"

definition Terminal_session :: "options \<Rightarrow> string \<Rightarrow> session" where
  "Terminal_session opts textarea =
     \<lparr>user = opt_user opts, system = opt_system opts, path = opt_path opts,
      ps1 = opt_ps1 opts, cwd = False, buffer = length textarea, stdin = textarea,
      stdout = '''', styleBackground = '''', styleColor = '''', documentStyle = '''',
      requests = []\<rparr>"

definition Terminal_commands :: "options \<Rightarrow> commands" where
  "Terminal_commands opts = foldl delete defaultCommands (excludedCommands opts)"

section \<open>Terminal: the interpreter\<close>

datatype js_error = TypeError | URIError

text \<open>
  How one run of the interpreter ends: the trigger was ignored; the timer's callback
  ran to its end; it stopped at an exception; or \<open>decodeURI\<close> gave a text outside the
  model.
\<close>

datatype outcome = Ignored | Done | Threw js_error | Unmodelled

text \<open>
  The loop \<open>for (const command in this._Commands) input = this._Commands[command](input)\<close>.
  Calling a value that is not a function raises \<open>TypeError\<close>; the session keeps what
  the commands before it did.
\<close>

fun runCommands :: "commands \<Rightarrow> string \<Rightarrow> session \<Rightarrow> (js_error + string) \<times> session" where
  "runCommands [] input s = (Inr input, s)"
| "runCommands ((k, Callable f) # rest) input s =
     (case f input s of (input', s') \<Rightarrow> runCommands rest input' s')"
| "runCommands ((k, NotCallable t) # rest) input s = (Inl TypeError, s)"

text \<open>
  The value of a textarea is read with its line breaks normalised: CR LF and CR
  become LF.
\<close>

fun normalizeNewlines :: "string \<Rightarrow> string" where
  "normalizeNewlines [] = []"
| "normalizeNewlines [c] = (if c = CHR 0x0D then [CHR 0x0A] else [c])"
| "normalizeNewlines (c # d # rest) =
     (if c = CHR 0x0D \<and> d = CHR 0x0A then CHR 0x0A # normalizeNewlines rest
      else if c = CHR 0x0D then CHR 0x0A # normalizeNewlines (d # rest)
      else c # normalizeNewlines (d # rest))"

text \<open>
  The end of the callback: the message is read from the final text and posted unless
  its first word is a key of \<open>_Commands\<close>.
\<close>

definition persist :: "commands \<Rightarrow> string \<Rightarrow> session \<Rightarrow> outcome \<times> session" where
  "persist tbl formatted s =
     (case parseArg s formatted ''decoded'' False of
        Undefined \<Rightarrow> (Done, s)
      | IsTrue \<Rightarrow> (Threw TypeError, s)
      | Text message \<Rightarrow>
          if message \<noteq> [] \<and> trim (hd (split_js message '' '')) \<notin> set (commandNames tbl)
          then (Done, s\<lparr>requests := requests s @ [postMsg (user s) message (path s)]\<rparr>)
          else (Done, s))"

text \<open>The callback that \<open>_takeInput\<close> hands to \<open>setTimeout\<close>.\<close>

definition takeInput_callback :: "commands \<Rightarrow> session \<Rightarrow> outcome \<times> session" where
  "takeInput_callback tbl s =
     (case runCommands (ownProperties tbl) (stdin s) s of
        (Inl e, s1) \<Rightarrow> (Threw e, s1)
      | (Inr input, s1) \<Rightarrow>
          (let formatted = (if truthy (parseArg s1 input ''clear'' False) \<or> cwd s1
                            then '''' else input);
               s2 = s1\<lparr>stdout := getPrompt s1 @ '' '' @ formatted @ '' ''\<rparr>
           in case decodeURI formatted of
                Malformed \<Rightarrow> (Threw URIError, s2)
              | Wide \<Rightarrow> (Unmodelled, s2)
              | Decoded d \<Rightarrow> persist tbl formatted (s2\<lparr>stdin := normalizeNewlines d\<rparr>)))"

text \<open>
  \<open>_takeInput\<close> itself, the \<open>keydown\<close> listener: it returns at once when the length
  of the textarea's text is \<open>_buffer\<close> (\<open>None\<close>: no timer is set); otherwise it
  records the length, clears \<open>cwd\<close> and sets the timer.
\<close>

definition takeInput :: "session \<Rightarrow> session option" where
  "takeInput s =
     (if length (stdin s) = buffer s then None
      else Some (s\<lparr>buffer := length (stdin s), cwd := False\<rparr>))"

text \<open>
  One input cycle: a key goes down and \<open>_takeInput\<close> runs; the browser then carries
  out the key's own action, after which the textarea holds \<open>typed\<close>; 20 ms later the
  callback runs, if a timer was set.
\<close>

definition keydown :: "commands \<Rightarrow> string \<Rightarrow> session \<Rightarrow> outcome \<times> session" where
  "keydown tbl typed s =
     (case takeInput s of
        None \<Rightarrow> (Ignored, s\<lparr>stdin := typed\<rparr>)
      | Some s' \<Rightarrow> takeInput_callback tbl (s'\<lparr>stdin := typed\<rparr>))"

text \<open>
  Typing keys one after the other, each adding its character at the end of the
  textarea's text, and each after the callback of the key before it has run.
\<close>

fun typeKeys :: "commands \<Rightarrow> string \<Rightarrow> session \<Rightarrow> session" where
  "typeKeys tbl [] s = s"
| "typeKeys tbl (k # ks) s = typeKeys tbl ks (snd (keydown tbl (stdin s @ [k]) s))"

section \<open>The page: index.js\<close>

text \<open>
  \<open>refresh\<close> writes a prompt to \<open>_stdout\<close> (and the title bar, which is not part of
  the state here); \<open>initialize\<close> attaches the listeners and calls it; \<open>_clear\<close> empties
  \<open>_stdout\<close> and the textarea and calls it.
\<close>

definition refresh :: "session \<Rightarrow> session" where
  "refresh s = s\<lparr>stdout := getPrompt s\<rparr>"

definition initialize :: "session \<Rightarrow> session" where
  "initialize s = refresh s"

definition clear :: "session \<Rightarrow> session" where
  "clear s = refresh (s\<lparr>stdout := '''', stdin := ''''\<rparr>)"

text \<open>
  The page makes one Terminal, \<open>chatNode\<close>, with no option that changes the session or
  the commands, over an empty textarea, and initializes it.
\<close>

definition chatNode :: session where
  "chatNode = initialize (Terminal_session defaults '''')"

definition chatNode_commands :: commands where
  "chatNode_commands = Terminal_commands defaults"


section \<open>Refresher: the history synchronizer\<close>

text \<open>
  A message as the store returns it in the log. The field \<open>alias\<close> is written
  \<open>alias'\<close>.
\<close>

record message =
  time :: string
  alias' :: string
  content :: string
  at :: string

text \<open>
  \<open>msgLine\<close> builds the \<open>innerHTML\<close> of the line appended for one message;
  \<open>PS1\<close> and \<open>location\<close> are the constructor's arguments.
\<close>

definition msgLine :: "string \<Rightarrow> string \<Rightarrow> message \<Rightarrow> string" where
  "msgLine PS1 location m =
     ''<span style=\"color: var(--secondary-text)\">'' @ alias' m @
     ''@'' @ at m @ '':</span><span style=\"color: var(--tertiary-text)\"'' @
     ''\">'' @ location @ ''</span><span style=\"color: var(--primary-text)\">'' @ PS1 @
     ''</span> '' @ replace_js (content m) ''_'' '' ''"

text \<open>
  The synchronizer's state: the lines appended to \<open>contentBox\<close> so far (each by its
  \<open>innerHTML\<close>) and \<open>currDepth\<close>, with the constructor's \<open>PS1\<close> and
  \<open>location\<close>. (The constructor's \<open>interval\<close> sets how often a tick happens, which
  the state does not record.)
\<close>

record refresher =
  PS1 :: string
  location :: string
  contentBox :: "string list"
  currDepth :: nat

definition Refresher :: "string list \<Rightarrow> string \<Rightarrow> string \<Rightarrow> refresher" where
  "Refresher box ps loc =
     \<lparr>PS1 = ps, location = loc, contentBox = box, currDepth = 0\<rparr>"

text \<open>
  The loop of the interval callback:
  \<^verbatim>\<open>while (messages.length > this.currDepth) { appendChild(msgLine(logs[messages[this.currDepth]])); this.currDepth += 1; }\<close>
  where \<open>logs\<close> is the array the store returned and \<open>messages = Object.keys(logs)\<close>
  its indices in ascending order, so that \<open>logs[messages[i]]\<close> is \<open>logs[i]\<close>.
\<close>

function appendNew :: "message list \<Rightarrow> refresher \<Rightarrow> refresher" where
  "appendNew logs r =
     (if length logs > currDepth r
      then appendNew logs
             (r\<lparr>contentBox := contentBox r @ [msgLine (PS1 r) (location r) (logs ! currDepth r)],
                currDepth := currDepth r + 1\<rparr>)
      else r)"
  by pat_completeness auto
termination
  by (relation "measure (\<lambda>(logs, r). length logs - currDepth r)") auto

declare appendNew.simps [simp del]

text \<open>
  One tick of the interval: \<open>DB.getLogs().then(...)\<close>. The fetch either resolves with
  the log (\<open>Some logs\<close>) and the callback runs, or it is rejected (\<open>None\<close>) and the
  callback never runs.
\<close>

definition tick :: "message list option \<Rightarrow> refresher \<Rightarrow> refresher" where
  "tick fetched r = (case fetched of None \<Rightarrow> r | Some logs \<Rightarrow> appendNew logs r)"

text \<open>The ticks of a whole run, one fetch outcome for each, oldest first.\<close>

fun ticks :: "message list option list \<Rightarrow> refresher \<Rightarrow> refresher" where
  "ticks [] r = r"
| "ticks (f # fs) r = ticks fs (tick f r)"

text \<open>A log for the examples: messages of one sender with the given contents.\<close>

definition logOf :: "string list \<Rightarrow> message list" where
  "logOf cs = map (\<lambda>c. \<lparr>time = '''', alias' = ''bob'', content = c, at = ''team''\<rparr>) cs"


section \<open>The synchronizer\<close>

lemma appendNew_contentBox:
  "contentBox (appendNew logs r) =
     contentBox r @ map (msgLine (PS1 r) (location r)) (drop (currDepth r) logs)"
proof (induction logs r rule: appendNew.induct)
  case (1 logs r)
  show ?case
  proof (cases "length logs > currDepth r")
    case True
    then have "drop (currDepth r) logs = logs ! currDepth r # drop (Suc (currDepth r)) logs"
      by (simp add: Cons_nth_drop_Suc)
    with True "1.IH" show ?thesis
      by (subst appendNew.simps) simp
  next
    case False
    then show ?thesis by (subst appendNew.simps) simp
  qed
qed

lemma appendNew_currDepth: "currDepth (appendNew logs r) = max (currDepth r) (length logs)"
proof (induction logs r rule: appendNew.induct)
  case (1 logs r)
  show ?case
  proof (cases "length logs > currDepth r")
    case True
    with "1.IH" show ?thesis by (subst appendNew.simps) (simp add: max_def)
  next
    case False
    then show ?thesis by (subst appendNew.simps) (simp add: max_def)
  qed
qed

lemma appendNew_params: "PS1 (appendNew logs r) = PS1 r \<and> location (appendNew logs r) = location r"
proof (induction logs r rule: appendNew.induct)
  case (1 logs r)
  show ?case
  proof (cases "length logs > currDepth r")
    case True
    with "1.IH" show ?thesis by (subst (1 2) appendNew.simps) simp
  next
    case False
    then show ?thesis by (subst (1 2) appendNew.simps) simp
  qed
qed

lemma appendNew_done: "length logs \<le> currDepth r \<Longrightarrow> appendNew logs r = r"
  by (subst appendNew.simps) simp

text \<open>
  C1. One merge tick with a fetched log \<open>L\<close> appends to the history transcript exactly
  the lines of \<open>L[d], ..., L[len(L)-1]\<close> in that order, where \<open>d\<close> is the rendered
  count before the tick, and sets the count to \<open>len(L)\<close> when \<open>len(L) > d\<close>; when
  \<open>len(L) \<le> d\<close> nothing is appended and the count stays. A second tick that fetches
  the same log changes nothing.
\<close>

theorem tick_appends_unrendered_suffix:
  "contentBox (tick (Some L) r) =
     contentBox r @ map (msgLine (PS1 r) (location r)) (drop (currDepth r) L)
   \<and> (length L > currDepth r \<longrightarrow>
        drop (currDepth r) L = map (\<lambda>i. L ! i) [currDepth r ..< length L]
        \<and> currDepth (tick (Some L) r) = length L)
   \<and> (length L \<le> currDepth r \<longrightarrow> tick (Some L) r = r)
   \<and> tick (Some L) (tick (Some L) r) = tick (Some L) r"
proof -
  have idem: "tick (Some L) (tick (Some L) r) = tick (Some L) r"
    by (simp add: tick_def appendNew_done appendNew_currDepth)
  have idx: "drop (currDepth r) L = map (\<lambda>i. L ! i) [currDepth r ..< length L]"
    by (rule nth_equalityI) auto
  show ?thesis
    using idem idx
    by (simp add: tick_def appendNew_contentBox appendNew_currDepth appendNew_done max_def)
qed

theorem tick_appends_unrendered_suffix_witness:
  "currDepth (tick (Some (logOf [''a'', ''b'', ''c''])) (Refresher [] ''$'' '''')) = 3
   \<and> contentBox (tick (Some (logOf [''a'', ''b'', ''c''])) (Refresher [] ''$'' '''')) =
       map (msgLine ''$'' '''') (logOf [''a'', ''b'', ''c''])
   \<and> tick (Some (logOf [''a'', ''b'', ''c'']))
         (tick (Some (logOf [''a'', ''b'', ''c''])) (Refresher [] ''$'' '''')) =
       tick (Some (logOf [''a'', ''b'', ''c''])) (Refresher [] ''$'' '''')
   \<and> tick (Some (logOf [''a'']))
         (tick (Some (logOf [''a'', ''b'', ''c''])) (Refresher [] ''$'' '''')) =
       tick (Some (logOf [''a'', ''b'', ''c''])) (Refresher [] ''$'' '''')"
proof -
  let ?L = "logOf [''a'', ''b'', ''c'']" and ?r = "Refresher [] ''$'' ''''"
  have len: "length ?L = 3" "length (logOf [''a'']) = 1"
    by (simp_all add: logOf_def)
  have depth: "currDepth (tick (Some ?L) ?r) = 3"
    using tick_appends_unrendered_suffix [of ?L ?r] len by (simp add: Refresher_def)
  have short: "tick (Some (logOf [''a''])) (tick (Some ?L) ?r) = tick (Some ?L) ?r"
    using tick_appends_unrendered_suffix [of "logOf [''a'']" "tick (Some ?L) ?r"] depth len
    by simp
  have box: "contentBox (tick (Some ?L) ?r) = map (msgLine ''$'' '''') ?L"
    using tick_appends_unrendered_suffix [of ?L ?r] by (simp add: Refresher_def)
  show ?thesis
    using tick_appends_unrendered_suffix [of ?L ?r] depth short box by simp
qed

subsection \<open>The rendered count never decreases\<close>

lemma tick_mono: "currDepth r \<le> currDepth (tick f r)"
  by (cases f) (simp_all add: tick_def appendNew_currDepth)

lemma ticks_mono: "currDepth r \<le> currDepth (ticks fs r)"
proof (induction fs arbitrary: r)
  case Nil
  show ?case by simp
next
  case (Cons f fs)
  have "currDepth r \<le> currDepth (tick f r)" by (rule tick_mono)
  also have "\<dots> \<le> currDepth (ticks fs (tick f r))" by (rule Cons.IH)
  finally show ?case by simp
qed

lemma ticks_append: "ticks (fs @ gs) r = ticks gs (ticks fs r)"
  by (induction fs arbitrary: r) simp_all

text \<open>
  C2. The rendered count starts at 0; no tick decreases it, whether its fetch succeeds
  or fails; along every sequence of ticks the count after \<open>i\<close> ticks is at most the
  count after \<open>j \<ge> i\<close> ticks; and a tick whose fetch fails leaves the count and the
  history transcript (the whole state) as they were.
\<close>

theorem currDepth_monotone:
  "currDepth (Refresher box ps loc) = 0
   \<and> currDepth r \<le> currDepth (tick f r)
   \<and> (\<forall>i j. i \<le> j \<longrightarrow> j \<le> length fs \<longrightarrow>
          currDepth (ticks (take i fs) r) \<le> currDepth (ticks (take j fs) r))
   \<and> tick None r = r"
proof -
  have steps: "currDepth (ticks (take i fs) r) \<le> currDepth (ticks (take j fs) r)"
    if "i \<le> j" for i j
  proof -
    from that have "take j fs = take i fs @ take (j - i) (drop i fs)"
      by (metis le_add_diff_inverse take_add)
    then show ?thesis by (simp add: ticks_append ticks_mono)
  qed
  have "tick None r = r" by (simp add: tick_def)
  with steps show ?thesis
    by (simp add: Refresher_def tick_mono)
qed

theorem currDepth_monotone_witness:
  "currDepth (ticks (take 1 [Some (logOf [''a'', ''b'']), None, Some (logOf [''a''])])
       (Refresher [] ''$'' '''')) \<le>
     currDepth (ticks (take 3 [Some (logOf [''a'', ''b'']), None, Some (logOf [''a''])])
       (Refresher [] ''$'' ''''))
   \<and> currDepth (ticks [Some (logOf [''a'', ''b'']), None, Some (logOf [''a''])]
         (Refresher [] ''$'' '''')) = 2
   \<and> tick None (Refresher [] ''$'' '''') = Refresher [] ''$'' ''''"
proof -
  let ?fs = "[Some (logOf [''a'', ''b'']), None, Some (logOf [''a''])]"
  let ?r = "Refresher [] ''$'' ''''"
  have two: "currDepth (ticks ?fs ?r) = 2"
    by (simp add: tick_def appendNew_currDepth Refresher_def logOf_def)
  have "(1::nat) \<le> 3" and "3 \<le> length ?fs" by simp_all
  then have "currDepth (ticks (take 1 ?fs) ?r) \<le> currDepth (ticks (take 3 ?fs) ?r)"
    using currDepth_monotone [of "[]" "''$''" "''''" ?r None ?fs] by blast
  moreover have "tick None ?r = ?r"
    using currDepth_monotone [of "[]" "''$''" "''''" ?r None ?fs] by blast
  ultimately show ?thesis using two by blast
qed

section \<open>The argument parser\<close>

lemma includes_js_sublist: "includes_js s p \<longleftrightarrow> sublist p s"
  unfolding includes_js_def
  by (induction s) (auto simp: sublist_Cons_right)

lemma indexOf_decomp:
  "indexOf s p = Some i \<Longrightarrow> s = take i s @ p @ drop (i + length p) s"
proof (induction s arbitrary: i)
  case Nil
  then show ?case by (simp split: if_splits)
next
  case (Cons c cs)
  show ?case
  proof (cases "prefix p (c # cs)")
    case True
    with Cons.prems have "i = 0" by simp
    moreover from True obtain zs where "c # cs = p @ zs" by (auto simp: prefix_def)
    ultimately show ?thesis by simp
  next
    case False
    with Cons.prems obtain i' where i': "indexOf cs p = Some i'" "i = Suc i'"
      by auto
    from Cons.IH [OF i'(1)] i'(2) show ?thesis by simp
  qed
qed

lemma indexOf_least:
  "indexOf s p = Some i \<Longrightarrow> s = u @ p @ v \<Longrightarrow> i \<le> length u"
proof (induction s arbitrary: i u)
  case Nil
  then show ?case by (simp split: if_splits)
next
  case (Cons c cs)
  show ?case
  proof (cases "prefix p (c # cs)")
    case True
    with Cons.prems(1) have "i = 0" by simp
    then show ?thesis by simp
  next
    case False
    with Cons.prems(1) obtain i' where i': "indexOf cs p = Some i'" "i = Suc i'"
      by auto
    show ?thesis
    proof (cases u)
      case Nil
      with Cons.prems(2) False show ?thesis by (simp add: prefix_def)
    next
      case (Cons a u')
      with Cons.prems(2) have "cs = u' @ p @ v" by simp
      with i'(1) have "i' \<le> length u'" by (rule Cons.IH)
      with Cons i'(2) show ?thesis by simp
    qed
  qed
qed

text \<open>
  \<open>replace\<close> with a string pattern that occurs in the text removes its first
  occurrence: the text is \<open>u @ p @ v\<close> with the shortest possible \<open>u\<close>, and the
  result is \<open>u\<close>, the replacement and \<open>v\<close>.
\<close>

lemma replace_js_first:
  assumes "sublist p s"
  shows "\<exists>u v. s = u @ p @ v \<and> (\<forall>u' v'. s = u' @ p @ v' \<longrightarrow> length u \<le> length u')
           \<and> replace_js s p r = u @ getSubstitution p u v r @ v"
proof -
  from assms obtain i where i: "indexOf s p = Some i"
    using includes_js_sublist [of s p] by (auto simp: includes_js_def)
  let ?u = "take i s" and ?v = "drop (i + length p) s"
  have len: "length ?u = i" using indexOf_bound [OF i] by simp
  have "s = ?u @ p @ ?v" by (rule indexOf_decomp [OF i])
  moreover have "\<forall>u' v'. s = u' @ p @ v' \<longrightarrow> length ?u \<le> length u'"
    using indexOf_least [OF i] len by simp
  moreover have "replace_js s p r = ?u @ getSubstitution p ?u ?v r @ ?v"
    by (simp add: replace_js_def i)
  ultimately show ?thesis by blast
qed

text \<open>
  C3, amended. When the current line exists and is not empty, and the input ends at a
  line boundary (its last character but one is \<open>>\<close>), then for every command keyword
  other than \<open>decoded\<close>: without \<open>nargs\<close> the parser returns \<open>true\<close> if the keyword is
  a part of the current line and \<open>undefined\<close> if not; with \<open>nargs\<close> it returns the
  current line without the first occurrence of the keyword, trimmed, if the keyword is
  a part of the line, and \<open>undefined\<close> if not.
\<close>

theorem parseArg_at_line_boundary:
  assumes "currText s input = Some line" and "line \<noteq> []"
    and "lastButOne input = Some CHR ''>''" and "command \<noteq> ''decoded''"
  shows "parseArg s input command False = (if sublist command line then IsTrue else Undefined)
    \<and> (if sublist command line
        then \<exists>u v. line = u @ command @ v
               \<and> (\<forall>u' v'. line = u' @ command @ v' \<longrightarrow> length u \<le> length u')
               \<and> parseArg s input command True = Text (trim (u @ v))
        else parseArg s input command True = Undefined)"
proof (cases "sublist command line")
  case True
  from assms True have flag: "parseArg s input command False = IsTrue"
    and arg: "parseArg s input command True = Text (trim (replace_js line command ''''))"
    by (simp_all add: parseArg_def includes_js_sublist)
  from replace_js_first [OF True, of "''''"] obtain u v
    where "line = u @ command @ v"
      and "\<forall>u' v'. line = u' @ command @ v' \<longrightarrow> length u \<le> length u'"
      and "replace_js line command '''' = u @ v" by auto
  with arg have "\<exists>u v. line = u @ command @ v
      \<and> (\<forall>u' v'. line = u' @ command @ v' \<longrightarrow> length u \<le> length u')
      \<and> parseArg s input command True = Text (trim (u @ v))" by metis
  with flag True show ?thesis by simp
next
  case False
  with assms show ?thesis by (simp add: parseArg_def includes_js_sublist)
qed

theorem parseArg_at_line_boundary_witness:
  "parseArg chatNode (''abcd foo<br />'' @ getPrompt chatNode @ '' '') ''cd '' False = IsTrue
   \<and> parseArg chatNode (''abcd foo<br />'' @ getPrompt chatNode @ '' '') ''cd '' True = Text ''abfoo''
   \<and> parseArg chatNode (''abcd foo<br />'' @ getPrompt chatNode @ '' '') ''echo'' False = Undefined
   \<and> parseArg chatNode (''abcd foo<br />'' @ getPrompt chatNode @ '' '') ''echo'' True = Undefined"
proof -
  let ?input = "''abcd foo<br />'' @ getPrompt chatNode @ '' ''"
  have line: "currText chatNode ?input = Some ''abcd foo''" by code_simp
  have boundary: "lastButOne ?input = Some CHR ''>''" by code_simp
  have present: "sublist ''cd '' ''abcd foo''" and absent: "\<not> sublist ''echo'' ''abcd foo''"
    by code_simp+
  have "parseArg chatNode ?input ''cd '' False = IsTrue"
    using parseArg_at_line_boundary [OF line _ boundary, of "''cd ''"] present by simp
  moreover have "parseArg chatNode ?input ''echo'' False = Undefined"
    and "parseArg chatNode ?input ''echo'' True = Undefined"
    using parseArg_at_line_boundary [OF line _ boundary, of "''echo''"] absent by simp_all
  moreover have "parseArg chatNode ?input ''cd '' True = Text ''abfoo''" by code_simp
  ultimately show ?thesis by simp
qed

text \<open>
  The claim C3 as stated fails for the keyword \<open>decoded\<close>: on the line \<open>hello\<close>, of
  which it is no part, the parser returns the line and not \<open>undefined\<close>.
\<close>

theorem parseArg_decoded_counterexample:
  "currText chatNode (''hello<br />'' @ getPrompt chatNode @ '' '') = Some ''hello''
   \<and> lastButOne (''hello<br />'' @ getPrompt chatNode @ '' '') = Some CHR ''>''
   \<and> \<not> sublist ''decoded'' ''hello''
   \<and> parseArg chatNode (''hello<br />'' @ getPrompt chatNode @ '' '') ''decoded'' False
       = Text ''hello''
   \<and> parseArg chatNode (''hello<br />'' @ getPrompt chatNode @ '' '') ''decoded'' False
       \<noteq> Undefined"
  by code_simp

text \<open>
  C10. When the last character but one of the input is not \<open>>\<close> (or the input has
  fewer than two characters), the parser returns \<open>undefined\<close> for every command name
  and both values of \<open>nargs\<close>, also for the name \<open>decoded\<close>; and the end of the
  callback, given such a final text, posts no message.
\<close>

theorem parseArg_undefined_off_boundary:
  assumes "length input < 2 \<or> input ! (length input - 2) \<noteq> CHR ''>''"
  shows "parseArg s input command nargs = Undefined
    \<and> parseArg s input ''decoded'' nargs = Undefined
    \<and> persist tbl input s = (Done, s)"
proof -
  from assms have "lastButOne input \<noteq> Some CHR ''>''"
    by (auto simp: lastButOne_def)
  then have "parseArg s input c n = Undefined" for c n
    by (simp add: parseArg_def split: option.splits)
  then show ?thesis by (simp add: persist_def)
qed

theorem parseArg_undefined_off_boundary_witness:
  "parseArg chatNode ''cd foo'' ''cd '' True = Undefined
   \<and> parseArg chatNode ''cd foo'' ''decoded'' True = Undefined
   \<and> persist chatNode_commands ''cd foo'' chatNode = (Done, chatNode)
   \<and> parseArg chatNode ''x'' ''x'' False = Undefined"
proof -
  have "''cd foo'' ! (length ''cd foo'' - 2) \<noteq> CHR ''>''" by simp
  then have "parseArg chatNode ''cd foo'' ''cd '' True = Undefined
    \<and> parseArg chatNode ''cd foo'' ''decoded'' True = Undefined
    \<and> persist chatNode_commands ''cd foo'' chatNode = (Done, chatNode)"
    using parseArg_undefined_off_boundary [of "''cd foo''" chatNode "''cd ''" True chatNode_commands]
    by blast
  moreover have "length ''x'' < 2" by simp
  then have "parseArg chatNode ''x'' ''x'' False = Undefined"
    using parseArg_undefined_off_boundary [of "''x''" chatNode "''x''" False chatNode_commands]
    by blast
  ultimately show ?thesis by blast
qed

section \<open>The interpreter\<close>

text \<open>
  C9. A trigger that finds the textarea's text as long as \<open>_buffer\<close> records returns
  at once: no timer is set, so no command runs, and the cycle leaves the whole state as
  it was (session, styles, \<open>_buffer\<close>, transcript, requests) but for the textarea's
  text, which is the browser's to change.
\<close>

theorem takeInput_debounce:
  assumes "length (stdin s) = buffer s"
  shows "takeInput s = None \<and> keydown tbl typed s = (Ignored, s\<lparr>stdin := typed\<rparr>)"
  using assms by (simp add: takeInput_def keydown_def)

theorem takeInput_debounce_witness:
  "takeInput chatNode = None
   \<and> keydown chatNode_commands ''e'' chatNode = (Ignored, chatNode\<lparr>stdin := ''e''\<rparr>)"
proof -
  have "length (stdin chatNode) = buffer chatNode" by code_simp
  then show ?thesis by (rule takeInput_debounce)
qed

text \<open>
  A line of plain text, typed into the page's Terminal and ended with Enter, is posted:
  the request carries the user, the line and the path, each made URL-safe.
\<close>

lemma plain_text_is_posted:
  "requests (typeKeys chatNode_commands ''hello there\<newline>'' chatNode) =
     [''http://143.198.57.139:80/msg/alias/hello_there/_'']"
  by code_simp

text \<open>
  The run of the line \<open>echo hello world\<close>, typed key by key into the page's Terminal
  and ended with Enter, and the run of the line \<open>lightmode\<close>.
\<close>

lemma typed_echo_hello_world:
  "typeKeys chatNode_commands ''echo hello world\<newline>'' chatNode =
     chatNode\<lparr>buffer := 16,
       stdin := ''echo hello world<br /><s<br />hello world<br />    '' @
                getPrompt chatNode @ '' '',
       stdout := getPrompt chatNode @
                 '' echo hello world<br /><s<br />hello world<br />    '' @
                 getPrompt chatNode @ ''  ''\<rparr>"
  by code_simp

lemma chatNode_requests: "requests chatNode = []"
  by code_simp

lemma typed_lightmode:
  "typeKeys chatNode_commands ''lightmode\<newline>'' chatNode =
     chatNode\<lparr>buffer := 9,
       stdin := ''lightmode<br />'' @ getPrompt chatNode @ '' '',
       stdout := getPrompt chatNode @ '' lightmode<br />'' @ getPrompt chatNode @ ''  '',
       styleBackground := ''white'', styleColor := ''#121212'',
       documentStyle := ''filter: brightness(1.1) greyscale(.2);'',
       requests := [''http://143.198.57.139:80/msg/alias/lightmode/_'']\<rparr>"
  by code_simp

text \<open>
  C4, amended. The line \<open>echo hello world\<close>, typed key by key into the page's
  Terminal and ended with Enter: the transcript then holds the prompt and the typed
  line, below them \<open>hello world\<close> on a line of its own, and after it, on the next
  line, a fresh prompt; no request has been sent. The rule behind this: whatever the
  command table, the callback posts nothing when the first word of the message is a
  key of the table.
\<close>

theorem echo_hello_world:
  "(\<exists>above. prefix ''echo hello world<br />'' above
      \<and> stdout (typeKeys chatNode_commands ''echo hello world\<newline>'' chatNode) =
          getPrompt chatNode @ '' '' @ above @ ''<br />hello world<br />    '' @
          getPrompt chatNode @ ''  '')
   \<and> requests (typeKeys chatNode_commands ''echo hello world\<newline>'' chatNode) = []
   \<and> (parseArg s formatted ''decoded'' False = Text message \<longrightarrow>
        trim (hd (split_js message '' '')) \<in> set (commandNames tbl) \<longrightarrow>
        persist tbl formatted s = (Done, s))"
proof -
  have shown: "\<exists>above. prefix ''echo hello world<br />'' above
      \<and> stdout (typeKeys chatNode_commands ''echo hello world\<newline>'' chatNode) =
          getPrompt chatNode @ '' '' @ above @ ''<br />hello world<br />    '' @
          getPrompt chatNode @ ''  ''"
  proof (rule exI [of _ "''echo hello world<br /><s''"], rule conjI)
    show "prefix ''echo hello world<br />'' ''echo hello world<br /><s''"
      by code_simp
    show "stdout (typeKeys chatNode_commands ''echo hello world\<newline>'' chatNode) =
        getPrompt chatNode @ '' '' @ ''echo hello world<br /><s'' @
        ''<br />hello world<br />    '' @ getPrompt chatNode @ ''  ''"
      unfolding typed_echo_hello_world by simp
  qed
  have silent: "requests (typeKeys chatNode_commands ''echo hello world\<newline>'' chatNode) = []"
    unfolding typed_echo_hello_world by (simp add: chatNode_requests)
  have excluded: "parseArg s formatted ''decoded'' False = Text message \<longrightarrow>
      trim (hd (split_js message '' '')) \<in> set (commandNames tbl) \<longrightarrow>
      persist tbl formatted s = (Done, s)"
    by (simp add: persist_def)
  from shown silent excluded show ?thesis by (intro conjI)
qed

theorem echo_hello_world_witness:
  "persist chatNode_commands
     (''echo hello world<br /><s<br />hello world<br />    '' @ getPrompt chatNode @ '' '')
     chatNode = (Done, chatNode)"
proof -
  let ?formatted =
    "''echo hello world<br /><s<br />hello world<br />    '' @ getPrompt chatNode @ '' ''"
  have message: "parseArg chatNode ?formatted ''decoded'' False =
      Text ''echo hello world<shello world''"
    by code_simp
  have key: "trim (hd (split_js ''echo hello world<shello world'' '' ''))
      \<in> set (commandNames chatNode_commands)"
    by code_simp
  have rule: "parseArg chatNode ?formatted ''decoded'' False =
        Text ''echo hello world<shello world'' \<longrightarrow>
      trim (hd (split_js ''echo hello world<shello world'' '' ''))
        \<in> set (commandNames chatNode_commands) \<longrightarrow>
      persist chatNode_commands ?formatted chatNode = (Done, chatNode)"
    by (rule echo_hello_world
          [where s = chatNode and tbl = chatNode_commands
             and message = "''echo hello world<shello world''"
             and formatted = ?formatted,
           THEN conjunct2, THEN conjunct2])
  show ?thesis by (rule mp [OF mp [OF rule message] key])
qed

text \<open>
  The claim C4 as stated fails in two places. The prompt that \<open>echo\<close> writes stands
  after \<open>hello world\<close>, not above it: in the line that \<open>echo\<close> returns, the text
  before \<open>hello world\<close> holds no prompt. And a line that names a recognized command
  is not always kept from the store: \<open>lightmode\<close> switches the theme and is posted
  all the same, since the key of its command is \<open>theme\<close>.
\<close>

theorem echo_hello_world_counterexample:
  "echo (''echo hello world<br />'' @ getPrompt chatNode @ '' '') chatNode =
     (''echo hello world<br /><s<br />'' @ ''hello world<br />    '' @
      getPrompt chatNode @ '' '', chatNode)
   \<and> \<not> sublist (getPrompt chatNode) ''echo hello world<br /><s<br />''
   \<and> styleBackground (typeKeys chatNode_commands ''lightmode\<newline>'' chatNode) = ''white''
   \<and> requests (typeKeys chatNode_commands ''lightmode\<newline>'' chatNode) =
       [''http://143.198.57.139:80/msg/alias/lightmode/_'']"
proof -
  have "echo (''echo hello world<br />'' @ getPrompt chatNode @ '' '') chatNode =
     (''echo hello world<br /><s<br />'' @ ''hello world<br />    '' @
      getPrompt chatNode @ '' '', chatNode)"
    by code_simp
  moreover have "\<not> sublist (getPrompt chatNode) ''echo hello world<br /><s<br />''"
    by code_simp
  moreover have
    "styleBackground (typeKeys chatNode_commands ''lightmode\<newline>'' chatNode) = ''white''"
    and "requests (typeKeys chatNode_commands ''lightmode\<newline>'' chatNode) =
       [''http://143.198.57.139:80/msg/alias/lightmode/_'']"
    unfolding typed_lightmode by simp_all
  ultimately show ?thesis by (intro conjI)
qed

text \<open>The runs of the lines \<open>cd foo\<close> and \<open>cd bar\<close>, typed one after the other.\<close>

lemma typed_cd_foo:
  "typeKeys chatNode_commands ''cd foo\<newline>'' chatNode =
     chatNode\<lparr>path := ''~/foo'', cwd := True, buffer := 6,
       stdout := getPrompt (chatNode\<lparr>path := ''~/foo''\<rparr>) @ ''  ''\<rparr>"
  by code_simp

lemma typed_cd_bar:
  "typeKeys chatNode_commands ''cd bar\<newline>''
     (chatNode\<lparr>path := ''~/foo'', cwd := True, buffer := 6,
        stdout := getPrompt (chatNode\<lparr>path := ''~/foo''\<rparr>) @ ''  ''\<rparr>) =
     chatNode\<lparr>path := ''~/foo/bar'', cwd := True, buffer := 6,
       stdout := getPrompt (chatNode\<lparr>path := ''~/foo/bar''\<rparr>) @ ''  ''\<rparr>"
  by code_simp

text \<open>
  C8. The lines \<open>cd foo\<close> and \<open>cd bar\<close>, typed one after the other: after the first
  the path is \<open>~/foo\<close>, after the second \<open>~/foo/bar\<close>; each time the flag \<open>cwd\<close> is
  set and the transcript is the prompt alone, followed by the two blanks around the
  empty line.
\<close>

theorem cd_foo_cd_bar:
  "path (typeKeys chatNode_commands ''cd foo\<newline>'' chatNode) = ''~/foo''
   \<and> cwd (typeKeys chatNode_commands ''cd foo\<newline>'' chatNode)
   \<and> stdout (typeKeys chatNode_commands ''cd foo\<newline>'' chatNode) =
       getPrompt (typeKeys chatNode_commands ''cd foo\<newline>'' chatNode) @ ''  ''
   \<and> path (typeKeys chatNode_commands ''cd bar\<newline>''
         (typeKeys chatNode_commands ''cd foo\<newline>'' chatNode)) = ''~/foo/bar''
   \<and> suffix ''/foo/bar''
         (path (typeKeys chatNode_commands ''cd bar\<newline>''
            (typeKeys chatNode_commands ''cd foo\<newline>'' chatNode)))
   \<and> cwd (typeKeys chatNode_commands ''cd bar\<newline>''
         (typeKeys chatNode_commands ''cd foo\<newline>'' chatNode))
   \<and> stdout (typeKeys chatNode_commands ''cd bar\<newline>''
         (typeKeys chatNode_commands ''cd foo\<newline>'' chatNode)) =
       getPrompt (typeKeys chatNode_commands ''cd bar\<newline>''
         (typeKeys chatNode_commands ''cd foo\<newline>'' chatNode)) @ ''  ''
   \<and> requests (typeKeys chatNode_commands ''cd bar\<newline>''
         (typeKeys chatNode_commands ''cd foo\<newline>'' chatNode)) = []"
proof -
  have "suffix ''/foo/bar'' ''~/foo/bar''" by code_simp
  then show ?thesis
    unfolding typed_cd_foo typed_cd_bar by (simp add: chatNode_requests getPrompt_def)
qed

section \<open>The command registry\<close>

lemma commandNames_set: "set (commandNames tbl) = fst ` set tbl"
  by (auto simp: commandNames_def ownProperties_def)

lemma map_of_assign:
  "k \<noteq> ''__proto__'' \<Longrightarrow> map_of (assign tbl k v) k = Some v"
proof (cases "k \<in> set (map fst tbl)")
  case True
  assume "k \<noteq> ''__proto__''"
  have "k \<in> set (map fst t) \<Longrightarrow>
      map_of (map (\<lambda>(k', v'). if k' = k then (k', v) else (k', v')) t) k = Some v" for t
    by (induction t) auto
  with True \<open>k \<noteq> ''__proto__''\<close> show ?thesis by (simp add: assign_def)
next
  case False
  assume "k \<noteq> ''__proto__''"
  moreover from False have "map_of tbl k = None"
    by (simp add: map_of_eq_None_iff)
  ultimately show ?thesis
    using False by (simp add: assign_def map_add_def)
qed

text \<open>
  \<open>addCommand\<close> takes the function first and the name second: called so, it files the
  function under the name.
\<close>

lemma addCommand_executor_first:
  assumes "name \<noteq> ''__proto__''"
  shows "name \<in> set (commandNames (addCommand (FunctionArg source f) (StringArg name) tbl))
    \<and> map_of (addCommand (FunctionArg source f) (StringArg name) tbl) name = Some (Callable f)"
proof -
  have "name \<in> fst ` set (assign tbl name (Callable f))"
    using assms by (force simp: assign_def)
  with assms show ?thesis
    by (simp add: addCommand_def commandNames_set map_of_assign)
qed

text \<open>
  C7 on the code. Called with the name first and the function second, \<open>addCommand\<close>
  files the name, a text, under the source text of the function: the name is not among
  the command names, and the next input cycle stops with a \<open>TypeError\<close> when the loop
  calls the text.
\<close>

theorem addCommand_name_first:
  "commandNames
     (addCommand (StringArg ''greet'') (FunctionArg ''(input) => input'' (\<lambda>input s. (input, s)))
        chatNode_commands) =
     [''linebreak'', ''echo'', ''help'', ''color'', ''text'', ''theme'', ''cd'', ''(input) => input'']
   \<and> ''greet'' \<notin> set (commandNames
        (addCommand (StringArg ''greet'') (FunctionArg ''(input) => input'' (\<lambda>input s. (input, s)))
           chatNode_commands))
   \<and> fst (keydown
        (addCommand (StringArg ''greet'') (FunctionArg ''(input) => input'' (\<lambda>input s. (input, s)))
           chatNode_commands)
        ''hi'' (chatNode\<lparr>stdin := ''h''\<rparr>)) = Threw TypeError"
  by code_simp

section \<open>The message store client\<close>

lemma mem_codes: "c \<in> set cs \<longleftrightarrow> (of_char c :: int) \<in> set (map of_char cs)"
  by (auto simp: image_iff)

lemma digit_codes:
  "c \<in> set ''0123456789'' \<longleftrightarrow> 48 \<le> (of_char c :: int) \<and> (of_char c :: int) \<le> 57"
  unfolding mem_codes by simp arith

lemma upper_codes:
  "c \<in> set ''ABCDEFGHIJKLMNOPQRSTUVWXYZ'' \<longleftrightarrow>
     65 \<le> (of_char c :: int) \<and> (of_char c :: int) \<le> 90"
  unfolding mem_codes by simp arith

lemma lower_codes:
  "c \<in> set ''abcdefghijklmnopqrstuvwxyz'' \<longleftrightarrow>
     97 \<le> (of_char c :: int) \<and> (of_char c :: int) \<le> 122"
  unfolding mem_codes by simp arith

lemma isAlnum_chars:
  "isAlnum c \<longleftrightarrow>
     c \<in> set ''0123456789'' \<or> c \<in> set ''ABCDEFGHIJKLMNOPQRSTUVWXYZ'' \<or>
     c \<in> set ''abcdefghijklmnopqrstuvwxyz''"
  unfolding digit_codes upper_codes lower_codes by (simp add: isAlnum_def Let_def)

lemma lowerChar_fixed:
  "c \<in> set ''0123456789'' \<or> c \<in> set ''abcdefghijklmnopqrstuvwxyz'' \<or> c = CHR ''_''
   \<Longrightarrow> lowerChar c = c"
  unfolding digit_codes lower_codes by (auto simp: lowerChar_def Let_def)

lemma lowerChar_upper:
  "map lowerChar ''ABCDEFGHIJKLMNOPQRSTUVWXYZ'' = ''abcdefghijklmnopqrstuvwxyz''"
  by code_simp

lemma urlSafe_chars:
  "urlSafe x =
     map (\<lambda>c. if c \<in> set ''0123456789'' \<or> c \<in> set ''abcdefghijklmnopqrstuvwxyz'' then c
              else if c \<in> set ''ABCDEFGHIJKLMNOPQRSTUVWXYZ'' then lowerChar c
              else CHR ''_'') x"
proof -
  have "lowerChar (if isAlnum c then c else CHR ''_'') =
      (if c \<in> set ''0123456789'' \<or> c \<in> set ''abcdefghijklmnopqrstuvwxyz'' then c
       else if c \<in> set ''ABCDEFGHIJKLMNOPQRSTUVWXYZ'' then lowerChar c
       else CHR ''_'')" for c
  proof (cases "c \<in> set ''0123456789'' \<or> c \<in> set ''abcdefghijklmnopqrstuvwxyz''")
    case True
    then have "isAlnum c" "lowerChar c = c"
      using isAlnum_chars [of c] lowerChar_fixed [of c] by blast+
    with True show ?thesis by (simp only: if_True)
  next
    case False
    show ?thesis
    proof (cases "c \<in> set ''ABCDEFGHIJKLMNOPQRSTUVWXYZ''")
      case True
      then have "isAlnum c" using isAlnum_chars [of c] by blast
      with True False show ?thesis by (simp only: if_True if_False)
    next
      case no: False
      with False have "\<not> isAlnum c" using isAlnum_chars [of c] by blast
      moreover have "lowerChar CHR ''_'' = CHR ''_''" by (rule lowerChar_fixed) simp
      ultimately show ?thesis using False no by (simp only: if_False)
    qed
  qed
  then show ?thesis by (simp add: urlSafe_def toLowerCase_def)
qed

lemma urlSafe_unescaped: "c \<in> set (urlSafe x) \<Longrightarrow> uriUnescaped c"
proof -
  assume "c \<in> set (urlSafe x)"
  then obtain d where c: "c = lowerChar (if isAlnum d then d else CHR ''_'')"
    by (auto simp: urlSafe_def toLowerCase_def)
  show ?thesis
  proof (cases "isAlnum d")
    case True
    then have "isAlnum (lowerChar d)"
      by (auto simp: isAlnum_def lowerChar_def Let_def)
    with True c show ?thesis by (simp add: uriUnescaped_def)
  next
    case False
    moreover have "lowerChar CHR ''_'' = CHR ''_''" by (rule lowerChar_fixed) simp
    ultimately have "c = CHR ''_''" using c by simp
    then show ?thesis by (simp add: uriUnescaped_def)
  qed
qed

lemma encodeURI_unescaped: "(\<And>c. c \<in> set s \<Longrightarrow> uriUnescaped c) \<Longrightarrow> encodeURI s = s"
  by (induction s) (simp_all add: encodeURI_def encodeChar_def)

lemma encodeURI_urlSafe: "encodeURI (urlSafe x) = urlSafe x"
  by (rule encodeURI_unescaped) (rule urlSafe_unescaped)

text \<open>
  C6, amended. \<open>postMsg\<close> requests the URL made of the three arguments, each
  transformed by \<open>urlSafe\<close>: a digit or a small letter stays, a capital letter A-Z
  becomes its small letter, every other character becomes \<open>_\<close>. The percent-encoding
  applied on top leaves such a text as it is.
\<close>

theorem postMsg_url:
  "postMsg a c t =
     ''http://143.198.57.139:80/msg/'' @ urlSafe a @ ''/'' @ urlSafe c @ ''/'' @ urlSafe t
   \<and> encodeURI (urlSafe x) = urlSafe x
   \<and> urlSafe x =
       map (\<lambda>c. if c \<in> set ''0123456789'' \<or> c \<in> set ''abcdefghijklmnopqrstuvwxyz'' then c
                else if c \<in> set ''ABCDEFGHIJKLMNOPQRSTUVWXYZ'' then lowerChar c
                else CHR ''_'') x
   \<and> map lowerChar ''ABCDEFGHIJKLMNOPQRSTUVWXYZ'' = ''abcdefghijklmnopqrstuvwxyz''"
proof (intro conjI)
  show "postMsg a c t =
      ''http://143.198.57.139:80/msg/'' @ urlSafe a @ ''/'' @ urlSafe c @ ''/'' @ urlSafe t"
    by (simp only: postMsg_def encodeURI_urlSafe)
qed (rule encodeURI_urlSafe urlSafe_chars lowerChar_upper)+

theorem postMsg_url_witness:
  "postMsg ''Bob_1'' ''Hi there!'' ''~/foo'' =
     ''http://143.198.57.139:80/msg/bob_1/hi_there_/__foo''"
proof -
  have "urlSafe ''Bob_1'' = ''bob_1''" and "urlSafe ''Hi there!'' = ''hi_there_''"
    and "urlSafe ''~/foo'' = ''__foo''"
    by code_simp+
  then show ?thesis
    using postMsg_url [of "''Bob_1''" "''Hi there!''" "''~/foo''" "''''"] by simp
qed

text \<open>
  The claim C6 as stated fails on a capital letter: \<open>B\<close> is in \<open>[A-Za-z0-9]\<close> and is
  not left unchanged.
\<close>

theorem postMsg_capitals_counterexample:
  "isAlnum CHR ''B''
   \<and> urlSafe ''Bob'' = ''bob''
   \<and> urlSafe ''Bob'' \<noteq> ''Bob''
   \<and> postMsg ''Bob'' ''Hi'' ''Team'' = ''http://143.198.57.139:80/msg/bob/hi/team''"
  by code_simp

section \<open>The rendering of a message\<close>

text \<open>
  C5 on the code. \<open>msgLine\<close> replaces the first underscore of the content only: the
  content \<open>how_are_you\<close> is rendered as \<open>how are_you\<close>.
\<close>

theorem msgLine_first_underscore_only:
  "msgLine ''$'' '''' \<lparr>time = '''', alias' = ''bob'', content = ''how_are_you'', at = ''team_x''\<rparr> =
     ''<span style=\"color: var(--secondary-text)\">bob@team_x:</span>'' @
     ''<span style=\"color: var(--tertiary-text)\"\"></span>'' @
     ''<span style=\"color: var(--primary-text)\">$</span> how are_you''"
  by code_simp


end
